theory Spec2Isabelle
  imports Complex_Main "HOL-Library.Sublist" "HOL-Library.Multiset"
begin

section \<open>JavaScript values used by the calculator\<close>

text \<open>
  A JavaScript \<open>number\<close> is modelled as an exact rational or \<open>NaN\<close>, and arithmetic is
  exact: the rounding error of IEEE doubles, overflow and the two infinities are outside
  this model. As in JavaScript, \<open>NaN\<close> is absorbing.
\<close>

datatype number = NaN | Num rat

fun jsadd :: "number \<Rightarrow> number \<Rightarrow> number" where
  "jsadd (Num a) (Num b) = Num (a + b)"
| "jsadd _ _ = NaN"

fun jsmul :: "number \<Rightarrow> number \<Rightarrow> number" where
  "jsmul (Num a) (Num b) = Num (a * b)"
| "jsmul _ _ = NaN"

text \<open>
  Division. The calculator only divides by the literals 100 and 10; a division by zero,
  which gives an infinity in JavaScript, does not occur and is \<open>NaN\<close> here.
\<close>

fun jsdiv :: "number \<Rightarrow> number \<Rightarrow> number" where
  "jsdiv (Num a) (Num b) = (if b = 0 then NaN else Num (a / b))"
| "jsdiv _ _ = NaN"

text \<open>\<open>Math.round\<close>: the integer nearest to the argument, a tie going to the larger one.\<close>

fun mathRound :: "number \<Rightarrow> number" where
  "mathRound (Num a) = Num (of_int \<lfloor>a + 1 / 2\<rfloor>)"
| "mathRound NaN = NaN"

fun isNaN :: "number \<Rightarrow> bool" where
  "isNaN NaN = True"
| "isNaN (Num _) = False"

text \<open>\<open>x || 0\<close> for \<open>x : number | null\<close>: \<open>null\<close>, \<open>NaN\<close> and \<open>0\<close> are falsy.\<close>

fun orZero :: "number option \<Rightarrow> number" where
  "orZero None = Num 0"
| "orZero (Some NaN) = Num 0"
| "orZero (Some (Num a)) = (if a = 0 then Num 0 else Num a)"

subsection \<open>Strings\<close>

text \<open>
  Strings are lists of 8-bit characters; \<open>toLowerCase\<close> and \<open>trim\<close> are modelled on
  ASCII. \<open>s.includes(q)\<close> is \<^term>\<open>sublist q s\<close>.
\<close>

definition isUpper :: "char \<Rightarrow> bool" where
  "isUpper c \<longleftrightarrow> 65 \<le> (of_char c :: nat) \<and> (of_char c :: nat) \<le> 90"

definition lowerChar :: "char \<Rightarrow> char" where
  "lowerChar c = (if isUpper c then char_of ((of_char c :: nat) + 32) else c)"

definition toLowerCase :: "string \<Rightarrow> string" where
  "toLowerCase s = map lowerChar s"

definition isSpace :: "char \<Rightarrow> bool" where
  "isSpace c \<longleftrightarrow> (of_char c :: nat) \<in> {9, 10, 11, 12, 13, 32}"

definition trim :: "string \<Rightarrow> string" where
  "trim s = rev (dropWhile isSpace (rev (dropWhile isSpace s)))"

definition isDigit :: "char \<Rightarrow> bool" where
  "isDigit c \<longleftrightarrow> 48 \<le> (of_char c :: nat) \<and> (of_char c :: nat) \<le> 57"

text \<open>The value of a run of decimal digits, read left to right.\<close>

definition digitsValue :: "string \<Rightarrow> nat" where
  "digitsValue ds = foldl (\<lambda>n c. 10 * n + ((of_char c :: nat) - 48)) 0 ds"

text \<open>
  \<open>parseFloat\<close>: skip leading white space, then read the longest prefix that is a decimal
  literal (sign, digits, fraction, exponent); \<open>NaN\<close> when there is none. The amount field
  is an \<open>input type="number"\<close>, whose value is empty or such a literal; the literal
  \<open>Infinity\<close>, which that control cannot produce, is not modelled.
\<close>

definition parseExponent :: "string \<Rightarrow> int" where
  "parseExponent r =
     (case r of
        [] \<Rightarrow> 0
      | c # r1 \<Rightarrow>
          if c = CHR ''e'' \<or> c = CHR ''E'' then
            (case r1 of
               [] \<Rightarrow> 0
             | d # r2 \<Rightarrow>
                 if d = CHR ''-'' then - int (digitsValue (takeWhile isDigit r2))
                 else if d = CHR ''+'' then int (digitsValue (takeWhile isDigit r2))
                 else int (digitsValue (takeWhile isDigit r1)))
          else 0)"

definition parseUnsigned :: "string \<Rightarrow> number" where
  "parseUnsigned s =
     (let ip = takeWhile isDigit s;
          r1 = dropWhile isDigit s;
          fp = (case r1 of [] \<Rightarrow> [] | c # r \<Rightarrow> if c = CHR ''.'' then takeWhile isDigit r else []);
          r2 = (case r1 of [] \<Rightarrow> [] | c # r \<Rightarrow> if c = CHR ''.'' then dropWhile isDigit r else r1)
      in if ip = [] \<and> fp = [] then NaN
         else Num ((of_nat (digitsValue ip) + of_nat (digitsValue fp) / 10 ^ length fp)
                   * 10 powi parseExponent r2))"

definition parseFloat :: "string \<Rightarrow> number" where
  "parseFloat s =
     (case dropWhile isSpace s of
        [] \<Rightarrow> NaN
      | c # r \<Rightarrow>
          if c = CHR ''-'' then jsmul (Num (- 1)) (parseUnsigned r)
          else if c = CHR ''+'' then parseUnsigned r
          else parseUnsigned (c # r))"

section \<open>Data model of the calculator page\<close>

text \<open>The interfaces at the top of the calculator page, field by field.\<close>

record FoodNutrient =
  nutrientName :: string
  nutrientValue :: number

record USDAFood =
  description :: string
  brandName :: "string option"
  foodNutrients :: "FoodNutrient list option"

record MealItem =
  itemId :: nat
  foodName :: string
  amountGrams :: string

record NutrientValues =
  calories :: number
  protein :: number
  fat :: number
  carbs :: number
  sugar :: number
  fiber :: number

record CalculatedItem =
  ciFoodName :: string
  ciAmountGrams :: number
  nutrientsPer100g :: NutrientValues
  computedNutrients :: NutrientValues

record HistoryLine =
  hlFoodName :: string
  grams :: number
  nutrients :: NutrientValues

record CalculatorHistoryItem =
  items :: "HistoryLine list"
  hiTotalNutrients :: NutrientValues
  timestamp :: string

text \<open>Exceptions that the calculator can meet, as values.\<close>

datatype js_error = FetchFailed | JsonSyntaxError | TypeError

text \<open>
  What \<open>fetch\<close> of the search URL does for one food name: the promise rejects (network
  error), or a response arrives. The response has a status, which the page never reads,
  and a body: not JSON (\<open>res.json()\<close> rejects), the JSON value \<open>null\<close> (reading
  \<open>data.foods\<close> throws), or any other JSON value with its \<open>foods\<close> member if it has one
  (an array of candidates, as the interface of the page declares it).
\<close>

datatype json_body = NotJson | JsonNull | JsonValue "USDAFood list option"

datatype fetch_outcome = NetworkError | Response nat json_body

subsection \<open>The helper \<open>getNutrient\<close>\<close>

definition getNutrient :: "USDAFood \<Rightarrow> string \<Rightarrow> number option" where
  "getNutrient food name =
     (case foodNutrients food of
        None \<Rightarrow> None
      | Some ns \<Rightarrow>
          (case find (\<lambda>item. nutrientName item = name) ns of
             Some n \<Rightarrow> Some (nutrientValue n)
           | None \<Rightarrow> None))"

subsection \<open>The body of the loop over the valid items\<close>

text \<open>Fetching and reading the candidates of one item: \<open>data.foods || []\<close>.\<close>

definition fetchFoods :: "(string \<Rightarrow> fetch_outcome) \<Rightarrow> MealItem \<Rightarrow> js_error + USDAFood list" where
  "fetchFoods fetch item =
     (case fetch (foodName item) of
        NetworkError \<Rightarrow> Inl FetchFailed
      | Response status NotJson \<Rightarrow> Inl JsonSyntaxError
      | Response status JsonNull \<Rightarrow> Inl TypeError
      | Response status (JsonValue None) \<Rightarrow> Inr []
      | Response status (JsonValue (Some foods)) \<Rightarrow> Inr foods)"

text \<open>Choosing the candidate: the filter on the description, then the first element.\<close>

definition pickFood :: "string \<Rightarrow> USDAFood list \<Rightarrow> USDAFood option" where
  "pickFood name foods =
     (let lowerQ = toLowerCase name;
          filtered = filter (\<lambda>f. description f \<noteq> [] \<and> sublist lowerQ (toLowerCase (description f))) foods
      in if length filtered > 0 then Some (filtered ! 0)
         else if length foods > 0 then Some (foods ! 0)
         else None)"

text \<open>
  The list shown by \<open>performSearch\<close> of the search page for the candidates received:
  the same filter, at most five elements, all candidates when the filter leaves none.
\<close>

definition searchResults :: "string \<Rightarrow> USDAFood list \<Rightarrow> USDAFood list" where
  "searchResults searchTerm received =
     (let lowerQ = toLowerCase searchTerm;
          foods = filter (\<lambda>f. description f \<noteq> [] \<and> sublist lowerQ (toLowerCase (description f))) received
      in if length foods = 0 then take 5 received else take 5 foods)"

text \<open>The six values per 100 g, each read by its exact name, \<open>|| 0\<close> when missing.\<close>

definition extractPer100g :: "USDAFood \<Rightarrow> NutrientValues" where
  "extractPer100g food =
     \<lparr> calories = orZero (getNutrient food ''Energy''),
       protein = orZero (getNutrient food ''Protein''),
       fat = orZero (getNutrient food ''Total lipid (fat)''),
       carbs = orZero (getNutrient food ''Carbohydrate, by difference''),
       sugar = orZero (getNutrient food ''Total Sugars''),
       fiber = orZero (getNutrient food ''Fiber, total dietary'') \<rparr>"

text \<open>The conversion to the entered amount, with \<open>conversionFactor = amountGrams / 100\<close>.\<close>

definition scaleNutrients :: "NutrientValues \<Rightarrow> number \<Rightarrow> NutrientValues" where
  "scaleNutrients per100g amount =
     (let conversionFactor = jsdiv amount (Num 100)
      in \<lparr> calories = jsdiv (mathRound (jsmul (jsmul (calories per100g) conversionFactor) (Num 10))) (Num 10),
           protein = jsdiv (mathRound (jsmul (jsmul (protein per100g) conversionFactor) (Num 10))) (Num 10),
           fat = jsdiv (mathRound (jsmul (jsmul (fat per100g) conversionFactor) (Num 10))) (Num 10),
           carbs = jsdiv (mathRound (jsmul (jsmul (carbs per100g) conversionFactor) (Num 10))) (Num 10),
           sugar = jsdiv (mathRound (jsmul (jsmul (sugar per100g) conversionFactor) (Num 10))) (Num 10),
           fiber = jsdiv (mathRound (jsmul (jsmul (fiber per100g) conversionFactor) (Num 10))) (Num 10) \<rparr>)"

definition zeroNutrients :: NutrientValues where
  "zeroNutrients =
     \<lparr> calories = Num 0, protein = Num 0, fat = Num 0, carbs = Num 0, sugar = Num 0, fiber = Num 0 \<rparr>"

text \<open>Adding one item's computed values to the running totals.\<close>

definition accumulate :: "NutrientValues \<Rightarrow> NutrientValues \<Rightarrow> NutrientValues" where
  "accumulate nutrientTotals computed =
     \<lparr> calories = jsadd (calories nutrientTotals) (calories computed),
       protein = jsadd (protein nutrientTotals) (protein computed),
       fat = jsadd (fat nutrientTotals) (fat computed),
       carbs = jsadd (carbs nutrientTotals) (carbs computed),
       sugar = jsadd (sugar nutrientTotals) (sugar computed),
       fiber = jsadd (fiber nutrientTotals) (fiber computed) \<rparr>"

text \<open>The entry pushed for an item whose candidate \<open>food\<close> was chosen.\<close>

definition foundEntry :: "MealItem \<Rightarrow> USDAFood \<Rightarrow> CalculatedItem" where
  "foundEntry item food =
     (let per100g = extractPer100g food;
          amount = parseFloat (amountGrams item);
          computed = scaleNutrients per100g amount
      in \<lparr> ciFoodName = (if description food \<noteq> [] then description food else foodName item),
           ciAmountGrams = amount,
           nutrientsPer100g = per100g,
           computedNutrients = computed \<rparr>)"

text \<open>The entry pushed for an item without a candidate.\<close>

definition notFoundEntry :: "MealItem \<Rightarrow> CalculatedItem" where
  "notFoundEntry item =
     \<lparr> ciFoodName = foodName item @ '' (not found)'',
       ciAmountGrams = parseFloat (amountGrams item),
       nutrientsPer100g = zeroNutrients,
       computedNutrients = zeroNutrients \<rparr>"

text \<open>
  One round of the loop. The state is the pair of the local variables \<open>results\<close> and
  \<open>nutrientTotals\<close>; an exception leaves the loop at once.
\<close>

definition processItem ::
  "(string \<Rightarrow> fetch_outcome) \<Rightarrow> MealItem \<Rightarrow> CalculatedItem list \<times> NutrientValues
     \<Rightarrow> js_error + CalculatedItem list \<times> NutrientValues" where
  "processItem fetch item st =
     (case fetchFoods fetch item of
        Inl e \<Rightarrow> Inl e
      | Inr foods \<Rightarrow>
          (case pickFood (foodName item) foods of
             Some food \<Rightarrow>
               Inr (fst st @ [foundEntry item food],
                    accumulate (snd st) (computedNutrients (foundEntry item food)))
           | None \<Rightarrow> Inr (fst st @ [notFoundEntry item], snd st)))"

fun processItems ::
  "(string \<Rightarrow> fetch_outcome) \<Rightarrow> MealItem list \<Rightarrow> CalculatedItem list \<times> NutrientValues
     \<Rightarrow> js_error + CalculatedItem list \<times> NutrientValues" where
  "processItems fetch [] st = Inr st"
| "processItems fetch (item # rest) st =
     (case processItem fetch item st of
        Inl e \<Rightarrow> Inl e
      | Inr st' \<Rightarrow> processItems fetch rest st')"

text \<open>Rounding the accumulated totals.\<close>

definition roundTotals :: "NutrientValues \<Rightarrow> NutrientValues" where
  "roundTotals nutrientTotals =
     \<lparr> calories = jsdiv (mathRound (jsmul (calories nutrientTotals) (Num 10))) (Num 10),
       protein = jsdiv (mathRound (jsmul (protein nutrientTotals) (Num 10))) (Num 10),
       fat = jsdiv (mathRound (jsmul (fat nutrientTotals) (Num 10))) (Num 10),
       carbs = jsdiv (mathRound (jsmul (carbs nutrientTotals) (Num 10))) (Num 10),
       sugar = jsdiv (mathRound (jsmul (sugar nutrientTotals) (Num 10))) (Num 10),
       fiber = jsdiv (mathRound (jsmul (fiber nutrientTotals) (Num 10))) (Num 10) \<rparr>"

section \<open>History kept in local storage\<close>

text \<open>
  A slot of \<open>localStorage\<close> holds a string or nothing. \<open>JSON.parse\<close> and
  \<open>JSON.stringify\<close> are parameters of the model; what \<open>JSON.parse\<close> does with the stored
  text is one of: it throws, it returns an array, it returns another value (on which
  \<open>unshift\<close> is not a function).
\<close>

datatype 'e parsed = ParseThrows | ParsedArray "'e list" | ParsedOther

definition historyEntry :: "string \<Rightarrow> CalculatedItem list \<Rightarrow> NutrientValues \<Rightarrow> CalculatorHistoryItem" where
  "historyEntry now results totals =
     \<lparr> items = map (\<lambda>item. \<lparr> hlFoodName = ciFoodName item,
                                grams = ciAmountGrams item,
                                nutrients = computedNutrients item \<rparr>) results,
       hiTotalNutrients = totals,
       timestamp = now \<rparr>"

text \<open>
  \<open>saveCalculationToHistory\<close>; \<open>now\<close> is the formatted time stamp. The result is the new
  content of the slot, or the exception that escapes.
\<close>

definition saveCalculationToHistory ::
  "(string \<Rightarrow> CalculatorHistoryItem parsed) \<Rightarrow> (CalculatorHistoryItem list \<Rightarrow> string) \<Rightarrow> bool \<Rightarrow> string
     \<Rightarrow> CalculatedItem list \<Rightarrow> NutrientValues \<Rightarrow> string option \<Rightarrow> js_error + string option" where
  "saveCalculationToHistory parse stringify loggedIn now results totals existingHistory =
     (if \<not> loggedIn then Inr existingHistory
      else
        (let entry = historyEntry now results totals;
             loaded = (case existingHistory of
                         None \<Rightarrow> ParsedArray []
                       | Some text \<Rightarrow>
                           if text = [] then ParsedArray []
                           else (case parse text of ParseThrows \<Rightarrow> ParsedArray [] | v \<Rightarrow> v))
         in case loaded of
              ParsedArray history \<Rightarrow> Inr (Some (stringify (take 20 (entry # history))))
            | _ \<Rightarrow> Inl TypeError))"

text \<open>\<open>saveToHistory\<close> of the search page, for the slot of the search history.\<close>

record SearchHistoryItem =
  shFoodName :: string
  shTimestamp :: string

definition saveToHistory ::
  "(string \<Rightarrow> SearchHistoryItem parsed) \<Rightarrow> (SearchHistoryItem list \<Rightarrow> string) \<Rightarrow> string
     \<Rightarrow> string \<Rightarrow> string option \<Rightarrow> js_error + string option" where
  "saveToHistory parse stringify now name currentHistory =
     (let newItem = \<lparr> shFoodName = name, shTimestamp = now \<rparr>;
          loaded = (case currentHistory of
                      None \<Rightarrow> ParsedArray []
                    | Some text \<Rightarrow>
                        if text = [] then ParsedArray []
                        else (case parse text of ParseThrows \<Rightarrow> ParsedArray [] | v \<Rightarrow> v))
      in case loaded of
           ParsedArray history \<Rightarrow> Inr (Some (stringify (take 20 (newItem # history))))
         | _ \<Rightarrow> Inl TypeError)"

section \<open>The handler \<open>handleCalculateNutrients\<close>\<close>

text \<open>The state of the page that the handler reads and writes, and the slot of the history.\<close>

record CalcState =
  mealItems :: "MealItem list"
  isLoggedIn :: bool
  showLoginModal :: bool
  calculatedResults :: "CalculatedItem list"
  totalNutrients :: "NutrientValues option"
  calculatorHistory :: "string option"

datatype alert = NoValidItems | CalculationError

definition isValidItem :: "MealItem \<Rightarrow> bool" where
  "isValidItem item \<longleftrightarrow>
     trim (foodName item) \<noteq> [] \<and> trim (amountGrams item) \<noteq> [] \<and> \<not> isNaN (parseFloat (amountGrams item))"

definition validItems :: "MealItem list \<Rightarrow> MealItem list" where
  "validItems ms = filter isValidItem ms"

text \<open>
  The handler returns the alert it shows, if any, and the new state. The flag
  \<open>calculating\<close>, which is false again when the handler ends, is left out.
\<close>

definition handleCalculateNutrients ::
  "(string \<Rightarrow> fetch_outcome) \<Rightarrow> (string \<Rightarrow> CalculatorHistoryItem parsed)
     \<Rightarrow> (CalculatorHistoryItem list \<Rightarrow> string) \<Rightarrow> string \<Rightarrow> CalcState \<Rightarrow> alert option \<times> CalcState" where
  "handleCalculateNutrients fetch parse stringify now s =
     (if \<not> isLoggedIn s then (None, s\<lparr>showLoginModal := True\<rparr>)
      else if length (validItems (mealItems s)) = 0 then (Some NoValidItems, s)
      else
        (let s1 = s\<lparr>calculatedResults := [], totalNutrients := None\<rparr>
         in case processItems fetch (validItems (mealItems s)) ([], zeroNutrients) of
              Inl e \<Rightarrow> (Some CalculationError, s1)
            | Inr (results, nutrientTotals) \<Rightarrow>
                (let roundedTotals = roundTotals nutrientTotals;
                     s2 = s1\<lparr>calculatedResults := results, totalNutrients := Some roundedTotals\<rparr>
                 in case saveCalculationToHistory parse stringify (isLoggedIn s) now results roundedTotals
                           (calculatorHistory s) of
                      Inl e \<Rightarrow> (Some CalculationError, s2)
                    | Inr slot \<Rightarrow> (None, s2\<lparr>calculatorHistory := slot\<rparr>))))"

section \<open>Notions used to state the properties\<close>

text \<open>
  Rounding to one decimal place, half up, in the words of the specification: of the two
  neighbouring multiples of one tenth the nearer one, the upper one on a tie.
\<close>

definition roundHalfUp1 :: "rat \<Rightarrow> rat" where
  "roundHalfUp1 x =
     (let lo = of_int \<lfloor>x * 10\<rfloor> / 10; hi = lo + 1 / 10
      in if x - lo < hi - x then lo else hi)"

fun roundNumber :: "number \<Rightarrow> number" where
  "roundNumber (Num x) = Num (roundHalfUp1 x)"
| "roundNumber NaN = NaN"

text \<open>Sums of numbers are sums with the JavaScript addition.\<close>

instantiation number :: comm_monoid_add
begin

definition zero_number :: number where
  "zero_number = Num 0"

definition plus_number :: "number \<Rightarrow> number \<Rightarrow> number" where
  "plus_number a b = jsadd a b"

instance
proof
  fix a b c :: number
  show "a + b + c = a + (b + c)"
    by (cases a; cases b; cases c) (simp_all add: plus_number_def)
  show "a + b = b + a"
    by (cases a; cases b) (simp_all add: plus_number_def)
  show "0 + a = a"
    by (cases a) (simp_all add: plus_number_def zero_number_def)
qed

end

text \<open>The six fields, and the table of the names under which they are looked up.\<close>

definition nutrientFields :: "(NutrientValues \<Rightarrow> number) list" where
  "nutrientFields = [calories, protein, fat, carbs, sugar, fiber]"

definition nutrientNames :: "((NutrientValues \<Rightarrow> number) \<times> string) list" where
  "nutrientNames =
     [(calories, ''Energy''), (protein, ''Protein''), (fat, ''Total lipid (fat)''),
      (carbs, ''Carbohydrate, by difference''), (sugar, ''Total Sugars''),
      (fiber, ''Fiber, total dietary'')]"

text \<open>The lookup of an item completes: no exception before the candidates are read.\<close>

definition fetchCompletes :: "(string \<Rightarrow> fetch_outcome) \<Rightarrow> MealItem \<Rightarrow> bool" where
  "fetchCompletes fetch item = (case fetchFoods fetch item of Inr foods \<Rightarrow> True | Inl e \<Rightarrow> False)"

text \<open>The lookup of an item completes and leaves no candidate to choose.\<close>

definition notFound :: "(string \<Rightarrow> fetch_outcome) \<Rightarrow> MealItem \<Rightarrow> bool" where
  "notFound fetch item =
     (case fetchFoods fetch item of Inr foods \<Rightarrow> pickFood (foodName item) foods = None | Inl e \<Rightarrow> False)"

text \<open>The entry of an item whose lookup completes (for other items the value is not used).\<close>

definition entryOf :: "(string \<Rightarrow> fetch_outcome) \<Rightarrow> MealItem \<Rightarrow> CalculatedItem" where
  "entryOf fetch item =
     (case fetchFoods fetch item of
        Inr foods \<Rightarrow>
          (case pickFood (foodName item) foods of
             Some food \<Rightarrow> foundEntry item food
           | None \<Rightarrow> notFoundEntry item)
      | Inl e \<Rightarrow> notFoundEntry item)"


section \<open>Example data\<close>

definition apple :: USDAFood where
  "apple =
     \<lparr> description = ''Apple, raw'', brandName = None,
       foodNutrients = Some [\<lparr> nutrientName = ''Energy'', nutrientValue = Num 52 \<rparr>,
                             \<lparr> nutrientName = ''Protein'', nutrientValue = Num (3 / 10) \<rparr>,
                             \<lparr> nutrientName = ''energy'', nutrientValue = Num 7 \<rparr>] \<rparr>"

definition appleJuice :: USDAFood where
  "appleJuice =
     \<lparr> description = ''Apple juice'', brandName = Some ''Orchard'',
       foodNutrients = Some [\<lparr> nutrientName = ''Energy'', nutrientValue = Num 46 \<rparr>] \<rparr>"

definition bananaBread :: USDAFood where
  "bananaBread = \<lparr> description = ''Banana bread'', brandName = None, foodNutrients = None \<rparr>"

definition chicken :: USDAFood where
  "chicken =
     \<lparr> description = ''Chicken, breast'', brandName = None,
       foodNutrients = Some [\<lparr> nutrientName = ''Protein'', nutrientValue = Num 31 \<rparr>,
                             \<lparr> nutrientName = ''Energy'', nutrientValue = Num 165 \<rparr>] \<rparr>"

definition milk :: USDAFood where
  "milk =
     \<lparr> description = ''Milk, whole'', brandName = None,
       foodNutrients = Some [\<lparr> nutrientName = ''Energy'', nutrientValue = Num 61 \<rparr>] \<rparr>"

text \<open>
  A server for the examples: candidates for three names, an empty list for \<open>dragonfruit\<close>,
  the error body of a failed search for \<open>broken\<close>, and no answer at all otherwise.
\<close>

definition exampleFetch :: "string \<Rightarrow> fetch_outcome" where
  "exampleFetch name =
     (if name = ''apple'' then Response 200 (JsonValue (Some [bananaBread, apple, appleJuice]))
      else if name = ''chicken'' then Response 200 (JsonValue (Some [chicken]))
      else if name = ''milk'' then Response 200 (JsonValue (Some [milk]))
      else if name = ''dragonfruit'' then Response 200 (JsonValue (Some []))
      else if name = ''broken'' then Response 500 (JsonValue None)
      else NetworkError)"

definition exampleParse :: "string \<Rightarrow> CalculatorHistoryItem parsed" where
  "exampleParse text =
     (if text = ''[]'' then ParsedArray [] else if text = ''{}'' then ParsedOther else ParseThrows)"

definition exampleStringify :: "CalculatorHistoryItem list \<Rightarrow> string" where
  "exampleStringify history = concat (map (\<lambda>entry. ''<'' @ timestamp entry @ ''>'') history)"

definition exampleState :: "MealItem list \<Rightarrow> CalcState" where
  "exampleState ms =
     \<lparr> mealItems = ms, isLoggedIn = True, showLoginModal = False, calculatedResults = [],
       totalNutrients = None, calculatorHistory = Some ''not json'' \<rparr>"

definition appleItem :: MealItem where
  "appleItem = \<lparr> itemId = 1, foodName = ''apple'', amountGrams = ''150'' \<rparr>"

definition dragonfruitItem :: MealItem where
  "dragonfruitItem = \<lparr> itemId = 2, foodName = ''dragonfruit'', amountGrams = ''80'' \<rparr>"

definition chickenItem :: MealItem where
  "chickenItem = \<lparr> itemId = 3, foodName = ''chicken'', amountGrams = ''140'' \<rparr>"

definition brokenItem :: MealItem where
  "brokenItem = \<lparr> itemId = 4, foodName = ''broken'', amountGrams = ''10'' \<rparr>"

definition offlineItem :: MealItem where
  "offlineItem = \<lparr> itemId = 5, foodName = ''rice'', amountGrams = ''100'' \<rparr>"



definition oldEntry :: "nat \<Rightarrow> CalculatorHistoryItem" where
  "oldEntry k = \<lparr> items = [], hiTotalNutrients = zeroNutrients, timestamp = replicate k (CHR ''i'') \<rparr>"

definition twentyEntries :: "CalculatorHistoryItem list" where
  "twentyEntries = map oldEntry (rev [1..<21])"

definition parseTwenty :: "string \<Rightarrow> CalculatorHistoryItem parsed" where
  "parseTwenty text = ParsedArray twentyEntries"

section \<open>Rounding\<close>

lemma mathRound_tenths: "of_int \<lfloor>x * 10 + 1 / 2\<rfloor> / 10 = roundHalfUp1 x"
proof -
  define n where "n = \<lfloor>x * 10\<rfloor>"
  have lo: "of_int n \<le> x * 10" and hi: "x * 10 < of_int n + 1"
    unfolding n_def by linarith+
  show ?thesis
  proof (cases "x * 10 - of_int n < 1 / 2")
    case True
    then have "\<lfloor>x * 10 + 1 / 2\<rfloor> = n"
      using lo by (intro floor_unique) auto
    then show ?thesis
      using True unfolding roundHalfUp1_def Let_def n_def[symmetric] by (simp add: field_simps)
  next
    case False
    then have "\<lfloor>x * 10 + 1 / 2\<rfloor> = n + 1"
      using hi by (intro floor_unique) auto
    then show ?thesis
      using False unfolding roundHalfUp1_def Let_def n_def[symmetric] by (simp add: field_simps)
  qed
qed

text \<open>
  \<^const>\<open>roundHalfUp1\<close> is rounding to the nearest tenth with ties upwards: the result is a
  multiple of one tenth, at most one twentieth away, and never one twentieth above.
\<close>

lemma roundHalfUp1_nearest:
  "(\<exists>k::int. roundHalfUp1 x = of_int k / 10) \<and> roundHalfUp1 x - 1 / 20 \<le> x \<and> x < roundHalfUp1 x + 1 / 20"
proof -
  define n where "n = \<lfloor>x * 10\<rfloor>"
  have lo: "of_int n \<le> x * 10" and hi: "x * 10 < of_int n + 1"
    unfolding n_def by linarith+
  show ?thesis
  proof (cases "x * 10 - of_int n < 1 / 2")
    case True
    then have r: "roundHalfUp1 x = of_int n / 10"
      unfolding roundHalfUp1_def Let_def n_def[symmetric] by (simp add: field_simps)
    have "\<exists>k::int. roundHalfUp1 x = of_int k / 10"
      using r by blast
    moreover have "roundHalfUp1 x - 1 / 20 \<le> x" "x < roundHalfUp1 x + 1 / 20"
      unfolding r using True lo by (simp_all add: field_simps)
    ultimately show ?thesis by blast
  next
    case False
    then have r: "roundHalfUp1 x = of_int (n + 1) / 10"
      unfolding roundHalfUp1_def Let_def n_def[symmetric] by (simp add: field_simps)
    have "\<exists>k::int. roundHalfUp1 x = of_int k / 10"
      using r by blast
    moreover have "roundHalfUp1 x - 1 / 20 \<le> x" "x < roundHalfUp1 x + 1 / 20"
      unfolding r using False hi by (simp_all add: field_simps)
    ultimately show ?thesis by blast
  qed
qed

lemma round_expr: "jsdiv (mathRound (jsmul x (Num 10))) (Num 10) = roundNumber x"
  by (cases x) (simp_all add: mathRound_tenths)

section \<open>The six fields\<close>

lemma field_cases:
  "sel \<in> set nutrientFields \<Longrightarrow>
     sel = calories \<or> sel = protein \<or> sel = fat \<or> sel = carbs \<or> sel = sugar \<or> sel = fiber"
  by (auto simp: nutrientFields_def)


lemma sel_roundTotals:
  "sel \<in> set nutrientFields \<Longrightarrow> sel (roundTotals t) = roundNumber (sel t)"
  by (auto dest!: field_cases simp: roundTotals_def round_expr)

lemma sel_accumulate:
  "sel \<in> set nutrientFields \<Longrightarrow> sel (accumulate t c) = sel t + sel c"
  by (auto dest!: field_cases simp: accumulate_def plus_number_def)

lemma sel_zero:
  "sel \<in> set nutrientFields \<Longrightarrow> sel zeroNutrients = 0"
  by (auto dest!: field_cases simp: zeroNutrients_def zero_number_def)

lemma accumulate_zero: "accumulate t zeroNutrients = t"
proof -
  have "jsadd x (Num 0) = x" for x
    by (cases x) simp_all
  then show ?thesis
    by (simp add: accumulate_def zeroNutrients_def)
qed

lemma orZero_Num: "\<exists>v. orZero x = Num v"
  by (cases x rule: orZero.cases) auto

lemma sel_extract_Num:
  "sel \<in> set nutrientFields \<Longrightarrow> \<exists>v. sel (extractPer100g food) = Num v"
  by (auto dest!: field_cases simp: extractPer100g_def orZero_Num)

lemma sel_foldl_accumulate:
  "sel \<in> set nutrientFields \<Longrightarrow> sel (foldl accumulate t cs) = sel t + sum_list (map sel cs)"
  by (induction cs arbitrary: t) (simp_all add: sel_accumulate add.assoc)

section \<open>The loop\<close>

lemma processItem_entry:
  "processItem fetch item st =
     (if fetchCompletes fetch item
      then Inr (fst st @ [entryOf fetch item], accumulate (snd st) (computedNutrients (entryOf fetch item)))
      else Inl (case fetchFoods fetch item of Inl e \<Rightarrow> e | Inr foods \<Rightarrow> TypeError))"
  by (auto simp: processItem_def fetchCompletes_def entryOf_def notFoundEntry_def accumulate_zero
           split: sum.splits option.splits)

lemma processItems_Inr:
  "list_all (fetchCompletes fetch) its \<Longrightarrow>
     processItems fetch its st =
       Inr (fst st @ map (entryOf fetch) its,
            foldl accumulate (snd st) (map (\<lambda>item. computedNutrients (entryOf fetch item)) its))"
  by (induction its arbitrary: st) (simp_all add: processItem_entry)

lemma processItems_Inl:
  "\<not> list_all (fetchCompletes fetch) its \<Longrightarrow> \<exists>e. processItems fetch its st = Inl e"
  by (induction its arbitrary: st) (auto simp: processItem_entry)

section \<open>Scaling of one item\<close>



section \<open>Totals\<close>




section \<open>The ways through the handler\<close>



lemma handle_lookup_throws:
  assumes "isLoggedIn s" and "validItems (mealItems s) \<noteq> []"
    and "\<not> list_all (fetchCompletes fetch) (validItems (mealItems s))"
  shows "handleCalculateNutrients fetch parse stringify now s =
           (Some CalculationError, s\<lparr>calculatedResults := [], totalNutrients := None\<rparr>)"
proof -
  obtain e where "processItems fetch (validItems (mealItems s)) ([], zeroNutrients) = Inl e"
    using processItems_Inl [OF assms(3)] by blast
  then show ?thesis
    using assms(1,2) by (simp add: handleCalculateNutrients_def)
qed

lemma handle_completes:
  assumes "isLoggedIn s" and "validItems (mealItems s) \<noteq> []"
    and "list_all (fetchCompletes fetch) (validItems (mealItems s))"
  shows "calculatedResults (snd (handleCalculateNutrients fetch parse stringify now s)) =
           map (entryOf fetch) (validItems (mealItems s))"
    and "totalNutrients (snd (handleCalculateNutrients fetch parse stringify now s)) =
           Some (roundTotals (foldl accumulate zeroNutrients
                   (map (\<lambda>item. computedNutrients (entryOf fetch item)) (validItems (mealItems s)))))"
  using assms(1,2) processItems_Inr [OF assms(3), of "([], zeroNutrients)"]
  by (simp_all add: handleCalculateNutrients_def Let_def split: sum.splits)





section \<open>Items without a candidate, and lookups that fail\<close>

lemma notFound_entry:
  "notFound fetch item \<Longrightarrow> fetchCompletes fetch item \<and> entryOf fetch item = notFoundEntry item"
  by (auto simp: notFound_def fetchCompletes_def entryOf_def split: sum.splits)

lemma sum_list_skip_zero:
  fixes g :: "nat \<Rightarrow> number"
  assumes "i < n" and "g i = 0"
  shows "sum_list (map g [0..<n]) = sum_list (map g (filter (\<lambda>j. j \<noteq> i) [0..<n]))"
proof -
  have split: "[0..<n] = [0..<i] @ i # [Suc i..<n]"
    using assms(1) by (metis le_add1 less_imp_add_positive upt_add_eq_append upt_conv_Cons plus_nat.add_0)
  have "filter (\<lambda>j. j \<noteq> i) [0..<i] = [0..<i]" and "filter (\<lambda>j. j \<noteq> i) [Suc i..<n] = [Suc i..<n]"
    by (simp_all add: filter_id_conv)
  then have "filter (\<lambda>j. j \<noteq> i) [0..<n] = [0..<i] @ [Suc i..<n]"
    by (simp add: split)
  then show ?thesis
    using assms(2) by (simp add: split)
qed

text \<open>
  C4: in a batch whose lookups all complete, an item for which no candidate is found
  still has its entry, at its position: the requested name with the suffix
  \<open>(not found)\<close>, the requested amount, and zero for all six nutrients. Every other item
  has the entry of its own lookup, and each total is the rounded sum over the other
  entries.
\<close>

theorem not_found_degrades:
  assumes "list_all (fetchCompletes fetch) its" and "i < length its"
    and "notFound fetch (its ! i)" and "sel \<in> set nutrientFields"
  shows "\<exists>results totals.
           processItems fetch its ([], zeroNutrients) = Inr (results, totals)
           \<and> length results = length its
           \<and> results ! i = \<lparr> ciFoodName = foodName (its ! i) @ '' (not found)'',
                             ciAmountGrams = parseFloat (amountGrams (its ! i)),
                             nutrientsPer100g = zeroNutrients,
                             computedNutrients = zeroNutrients \<rparr>
           \<and> (\<forall>j < length its. results ! j = entryOf fetch (its ! j))
           \<and> sel (roundTotals totals) =
               roundNumber (sum_list (map (\<lambda>j. sel (computedNutrients (results ! j)))
                                         (filter (\<lambda>j. j \<noteq> i) [0..<length its])))"
proof -
  let ?results = "map (entryOf fetch) its"
  let ?totals = "foldl accumulate zeroNutrients (map (\<lambda>item. computedNutrients (entryOf fetch item)) its)"
  let ?g = "\<lambda>j. sel (computedNutrients (?results ! j))"
  have run: "processItems fetch its ([], zeroNutrients) = Inr (?results, ?totals)"
    using processItems_Inr [OF assms(1), of "([], zeroNutrients)"] by simp
  have entry: "?results ! i = notFoundEntry (its ! i)"
    using assms(2) notFound_entry [OF assms(3)] by simp
  have zero: "?g i = 0"
    using assms(4) by (simp only: entry) (simp add: notFoundEntry_def sel_zero)
  have nth: "map (\<lambda>r. sel (computedNutrients r)) ?results = map ?g [0..<length its]"
    by (rule nth_equalityI) simp_all
  have "sel ?totals = sum_list (map (\<lambda>r. sel (computedNutrients r)) ?results)"
    using assms(4) by (simp add: sel_foldl_accumulate sel_zero o_def)
  also have "\<dots> = sum_list (map ?g [0..<length its])"
    by (simp only: nth)
  also have "\<dots> = sum_list (map ?g (filter (\<lambda>j. j \<noteq> i) [0..<length its]))"
    using assms(2) zero by (rule sum_list_skip_zero)
  finally have total: "sel (roundTotals ?totals) =
      roundNumber (sum_list (map ?g (filter (\<lambda>j. j \<noteq> i) [0..<length its])))"
    using assms(4) by (simp add: sel_roundTotals)
  have "length ?results = length its" and "\<forall>j < length its. ?results ! j = entryOf fetch (its ! j)"
    by simp_all
  moreover have "?results ! i = \<lparr> ciFoodName = foodName (its ! i) @ '' (not found)'',
                             ciAmountGrams = parseFloat (amountGrams (its ! i)),
                             nutrientsPer100g = zeroNutrients,
                             computedNutrients = zeroNutrients \<rparr>"
    by (simp only: entry) (simp add: notFoundEntry_def)
  ultimately show ?thesis
    using run total by blast
qed

theorem not_found_degrades_witness:
  "list_all (fetchCompletes exampleFetch) [appleItem, dragonfruitItem, chickenItem]
   \<and> 1 < length [appleItem, dragonfruitItem, chickenItem]
   \<and> notFound exampleFetch ([appleItem, dragonfruitItem, chickenItem] ! 1)
   \<and> calories \<in> set nutrientFields
   \<and> (\<exists>results totals.
         processItems exampleFetch [appleItem, dragonfruitItem, chickenItem] ([], zeroNutrients) = Inr (results, totals)
         \<and> length results = 3
         \<and> results ! 1 = \<lparr> ciFoodName = ''dragonfruit (not found)'', ciAmountGrams = Num 80,
                           nutrientsPer100g = zeroNutrients, computedNutrients = zeroNutrients \<rparr>
         \<and> calories (roundTotals totals) =
             roundNumber (sum_list (map (\<lambda>j. calories (computedNutrients (results ! j))) [0, 2])))"
proof -
  have h1: "list_all (fetchCompletes exampleFetch) [appleItem, dragonfruitItem, chickenItem]"
    by code_simp
  have h2: "1 < length [appleItem, dragonfruitItem, chickenItem]"
    by simp
  have h3: "notFound exampleFetch ([appleItem, dragonfruitItem, chickenItem] ! 1)"
    by code_simp
  have h4: "calories \<in> set nutrientFields"
    by (simp add: nutrientFields_def)
  have e1: "foodName ([appleItem, dragonfruitItem, chickenItem] ! 1) @ '' (not found)'' = ''dragonfruit (not found)''"
    by code_simp
  have e2: "parseFloat (amountGrams ([appleItem, dragonfruitItem, chickenItem] ! 1)) = Num 80"
    by code_simp
  have e3: "filter (\<lambda>j. j \<noteq> 1) [0..<length [appleItem, dragonfruitItem, chickenItem]] = [0, 2]"
    by code_simp
  show ?thesis
    using h1 h2 h3 h4 not_found_degrades [OF h1 h2 h3 h4]
    unfolding e1 e2 e3 by auto
qed

text \<open>
  C5, as the specification states it, fails: one item whose request is not answered
  stops the whole batch, with an error alert and neither entries nor totals.
\<close>

theorem lookup_failure_counterexample:
  "validItems (mealItems (exampleState [appleItem, offlineItem])) = [appleItem, offlineItem]
   \<and> exampleFetch (foodName offlineItem) = NetworkError
   \<and> fst (handleCalculateNutrients exampleFetch exampleParse exampleStringify ''2026/01/01 12:00:00''
            (exampleState [appleItem, offlineItem])) = Some CalculationError
   \<and> calculatedResults (snd (handleCalculateNutrients exampleFetch exampleParse exampleStringify ''2026/01/01 12:00:00''
            (exampleState [appleItem, offlineItem]))) = []
   \<and> totalNutrients (snd (handleCalculateNutrients exampleFetch exampleParse exampleStringify ''2026/01/01 12:00:00''
            (exampleState [appleItem, offlineItem]))) = None"
  by code_simp

text \<open>
  C5, amended: a lookup answered with a JSON body that has no list of foods (what the
  server sends with a non-success status), or an empty one, makes the item a zero-valued
  entry \<open>(not found)\<close>, and a batch whose lookups are all answered with a JSON value
  other than \<open>null\<close> produces all its entries and the totals. A lookup whose request
  fails, or whose body is not JSON or is \<open>null\<close>, stops the whole batch: an error alert,
  no entries and no totals.
\<close>

theorem lookup_failure_policy:
  assumes "isLoggedIn s" and "item \<in> set (validItems (mealItems s))"
  shows "(fetch (foodName item) = NetworkError
            \<or> (\<exists>status. fetch (foodName item) = Response status NotJson)
            \<or> (\<exists>status. fetch (foodName item) = Response status JsonNull)
          \<longrightarrow> handleCalculateNutrients fetch parse stringify now s =
                (Some CalculationError, s\<lparr>calculatedResults := [], totalNutrients := None\<rparr>))
         \<and> ((\<exists>status. fetch (foodName item) = Response status (JsonValue None)
                        \<or> fetch (foodName item) = Response status (JsonValue (Some [])))
              \<longrightarrow> fetchCompletes fetch item \<and> entryOf fetch item = notFoundEntry item)
         \<and> ((\<forall>it \<in> set (validItems (mealItems s)). \<exists>status foods. fetch (foodName it) = Response status (JsonValue foods))
              \<longrightarrow> calculatedResults (snd (handleCalculateNutrients fetch parse stringify now s)) =
                    map (entryOf fetch) (validItems (mealItems s))
                  \<and> (\<exists>T. totalNutrients (snd (handleCalculateNutrients fetch parse stringify now s)) = Some T))"
proof -
  have nonempty: "validItems (mealItems s) \<noteq> []"
    using assms(2) by auto
  have "handleCalculateNutrients fetch parse stringify now s =
          (Some CalculationError, s\<lparr>calculatedResults := [], totalNutrients := None\<rparr>)"
    if "fetch (foodName item) = NetworkError
          \<or> (\<exists>status. fetch (foodName item) = Response status NotJson)
          \<or> (\<exists>status. fetch (foodName item) = Response status JsonNull)"
  proof -
    have "\<not> fetchCompletes fetch item"
      using that by (auto simp: fetchCompletes_def fetchFoods_def)
    then have "\<not> list_all (fetchCompletes fetch) (validItems (mealItems s))"
      using assms(2) by (auto simp: list_all_iff)
    then show ?thesis
      using assms(1) nonempty by (rule handle_lookup_throws [rotated 2])
  qed
  moreover have "fetchCompletes fetch item \<and> entryOf fetch item = notFoundEntry item"
    if "\<exists>status. fetch (foodName item) = Response status (JsonValue None)
                  \<or> fetch (foodName item) = Response status (JsonValue (Some []))"
    using that by (auto simp: fetchCompletes_def entryOf_def fetchFoods_def pickFood_def)
  moreover have "calculatedResults (snd (handleCalculateNutrients fetch parse stringify now s)) =
                    map (entryOf fetch) (validItems (mealItems s))
                  \<and> (\<exists>T. totalNutrients (snd (handleCalculateNutrients fetch parse stringify now s)) = Some T)"
    if answered: "\<forall>it \<in> set (validItems (mealItems s)). \<exists>status foods. fetch (foodName it) = Response status (JsonValue foods)"
  proof -
    have "fetchCompletes fetch it" if mem: "it \<in> set (validItems (mealItems s))" for it
    proof -
      obtain status foods where "fetch (foodName it) = Response status (JsonValue foods)"
        using answered mem by blast
      then show ?thesis
        by (cases foods) (simp_all add: fetchCompletes_def fetchFoods_def)
    qed
    then have "list_all (fetchCompletes fetch) (validItems (mealItems s))"
      by (simp add: list_all_iff)
    then show ?thesis
      using handle_completes [OF assms(1) nonempty] by simp
  qed
  ultimately show ?thesis by blast
qed

theorem lookup_failure_policy_witness:
  "isLoggedIn (exampleState [appleItem, brokenItem])
   \<and> brokenItem \<in> set (validItems (mealItems (exampleState [appleItem, brokenItem])))
   \<and> exampleFetch (foodName brokenItem) = Response 500 (JsonValue None)
   \<and> entryOf exampleFetch brokenItem = notFoundEntry brokenItem
   \<and> calculatedResults (snd (handleCalculateNutrients exampleFetch exampleParse exampleStringify ''2026/01/01 12:00:00''
        (exampleState [appleItem, brokenItem]))) =
     map (entryOf exampleFetch) (validItems (mealItems (exampleState [appleItem, brokenItem])))
   \<and> (\<exists>T. totalNutrients (snd (handleCalculateNutrients exampleFetch exampleParse exampleStringify ''2026/01/01 12:00:00''
        (exampleState [appleItem, brokenItem]))) = Some T)
   \<and> isLoggedIn (exampleState [appleItem, offlineItem])
   \<and> offlineItem \<in> set (validItems (mealItems (exampleState [appleItem, offlineItem])))
   \<and> exampleFetch (foodName offlineItem) = NetworkError
   \<and> handleCalculateNutrients exampleFetch exampleParse exampleStringify ''2026/01/01 12:00:00''
        (exampleState [appleItem, offlineItem]) =
      (Some CalculationError, (exampleState [appleItem, offlineItem])\<lparr>calculatedResults := [], totalNutrients := None\<rparr>)"
proof -
  have h1: "isLoggedIn (exampleState [appleItem, brokenItem])"
    by (simp add: exampleState_def)
  have v: "validItems (mealItems (exampleState [appleItem, brokenItem])) = [appleItem, brokenItem]"
    by code_simp
  have h2: "brokenItem \<in> set (validItems (mealItems (exampleState [appleItem, brokenItem])))"
    by (simp add: v)
  have f1: "exampleFetch (foodName brokenItem) = Response 500 (JsonValue None)"
    by code_simp
  have f2: "exampleFetch (foodName appleItem) = Response 200 (JsonValue (Some [bananaBread, apple, appleJuice]))"
    by code_simp
  have all: "\<forall>it \<in> set (validItems (mealItems (exampleState [appleItem, brokenItem]))).
               \<exists>status foods. exampleFetch (foodName it) = Response status (JsonValue foods)"
    using f1 f2 by (simp add: v)
  have g1: "isLoggedIn (exampleState [appleItem, offlineItem])"
    by (simp add: exampleState_def)
  have w: "validItems (mealItems (exampleState [appleItem, offlineItem])) = [appleItem, offlineItem]"
    by code_simp
  have g2: "offlineItem \<in> set (validItems (mealItems (exampleState [appleItem, offlineItem])))"
    by (simp add: w)
  have f3: "exampleFetch (foodName offlineItem) = NetworkError"
    by code_simp
  show ?thesis
    using h1 h2 f1 all g1 g2 f3
      lookup_failure_policy [OF h1 h2, of exampleFetch exampleParse exampleStringify "''2026/01/01 12:00:00''"]
      lookup_failure_policy [OF g1 g2, of exampleFetch exampleParse exampleStringify "''2026/01/01 12:00:00''"]
    by blast
qed

section \<open>Validation of the input\<close>





section \<open>Choosing the candidate and reading its nutrients\<close>






text \<open>The candidate chosen by the calculator is the first element of what the search page shows.\<close>

lemma pickFood_searchResults:
  "pickFood name foods = (case searchResults name foods of [] \<Rightarrow> None | f # rest \<Rightarrow> Some f)"
proof -
  let ?filtered = "filter (\<lambda>f. description f \<noteq> [] \<and> sublist (toLowerCase name) (toLowerCase (description f))) foods"
  show ?thesis
  proof (cases ?filtered)
    case Nil
    then show ?thesis
      by (cases foods) (simp_all add: pickFood_def searchResults_def Let_def take_Cons')
  next
    case (Cons f rest)
    then show ?thesis
      by (simp add: pickFood_def searchResults_def Let_def take_Cons')
  qed
qed

lemma find_first:
  assumes "\<forall>m \<in> set pre. \<not> P m" and "P n"
  shows "find P (pre @ n # post) = Some n"
  using assms by (induction pre) simp_all

lemma find_none: "(\<forall>m \<in> set ns. \<not> P m) \<Longrightarrow> find P ns = None"
  by (induction ns) simp_all

lemma name_cases:
  "(sel, name) \<in> set nutrientNames \<Longrightarrow>
     sel (extractPer100g food) = orZero (getNutrient food name)"
  by (auto simp: nutrientNames_def extractPer100g_def)

text \<open>
  C7: each of the six nutrients of the chosen candidate is read from the first element
  of its list of nutrients whose name is exactly the name of the table; a candidate
  without a list, or with a list that lacks the name, gives 0 for that field; every field
  is a number in every case.
\<close>

theorem nutrients_by_exact_name:
  assumes "(sel, name) \<in> set nutrientNames"
  shows "(foodNutrients food = None \<longrightarrow> sel (extractPer100g food) = Num 0)
         \<and> (\<forall>ns. foodNutrients food = Some ns \<and> (\<forall>m \<in> set ns. nutrientName m \<noteq> name)
               \<longrightarrow> sel (extractPer100g food) = Num 0)
         \<and> (\<forall>pre n post v. foodNutrients food = Some (pre @ n # post)
               \<and> (\<forall>m \<in> set pre. nutrientName m \<noteq> name)
               \<and> nutrientName n = name \<and> nutrientValue n = Num v
               \<longrightarrow> sel (extractPer100g food) = Num v)
         \<and> (\<exists>v. sel (extractPer100g food) = Num v)"
proof -
  note e = name_cases [OF assms, of food]
  have "sel (extractPer100g food) = Num 0" if "foodNutrients food = None"
    using that by (simp add: e getNutrient_def)
  moreover have "sel (extractPer100g food) = Num 0"
    if "foodNutrients food = Some ns" and "\<forall>m \<in> set ns. nutrientName m \<noteq> name" for ns
    using that(1) find_none [of ns "\<lambda>item. nutrientName item = name", OF that(2)]
    by (simp add: e getNutrient_def)
  moreover have "sel (extractPer100g food) = Num v"
    if "foodNutrients food = Some (pre @ n # post)" and "\<forall>m \<in> set pre. nutrientName m \<noteq> name"
      and "nutrientName n = name" and "nutrientValue n = Num v" for pre n post v
    using that(1,4) find_first [of pre "\<lambda>item. nutrientName item = name" n post, OF that(2,3)]
    by (simp add: e getNutrient_def)
  moreover have "\<exists>v. sel (extractPer100g food) = Num v"
    by (simp add: e orZero_Num)
  ultimately show ?thesis by blast
qed

theorem nutrients_by_exact_name_witness:
  "(calories, ''Energy'') \<in> set nutrientNames
   \<and> foodNutrients chicken = Some ([\<lparr> nutrientName = ''Protein'', nutrientValue = Num 31 \<rparr>]
        @ \<lparr> nutrientName = ''Energy'', nutrientValue = Num 165 \<rparr> # [])
   \<and> calories (extractPer100g chicken) = Num 165
   \<and> (fat, ''Total lipid (fat)'') \<in> set nutrientNames
   \<and> fat (extractPer100g chicken) = Num 0
   \<and> foodNutrients bananaBread = None
   \<and> calories (extractPer100g bananaBread) = Num 0"
proof -
  let ?p = "\<lparr> nutrientName = ''Protein'', nutrientValue = Num 31 \<rparr>"
  let ?e = "\<lparr> nutrientName = ''Energy'', nutrientValue = Num 165 \<rparr>"
  have h1: "(calories, ''Energy'') \<in> set nutrientNames"
    by (simp add: nutrientNames_def)
  have h2: "(fat, ''Total lipid (fat)'') \<in> set nutrientNames"
    by (simp add: nutrientNames_def)
  have c: "foodNutrients chicken = Some ([?p] @ ?e # [])"
    by (simp add: chicken_def)
  have p: "\<forall>m \<in> set [?p]. nutrientName m \<noteq> ''Energy''"
    by simp
  have q: "\<forall>m \<in> set ([?p] @ ?e # []). nutrientName m \<noteq> ''Total lipid (fat)''"
    by simp
  have b: "foodNutrients bananaBread = None"
    by (simp add: bananaBread_def)
  have pe: "nutrientName ?e = ''Energy''" and ve: "nutrientValue ?e = Num 165"
    by simp_all
  note found = nutrients_by_exact_name [OF h1, of chicken, THEN conjunct2, THEN conjunct2, THEN conjunct1,
      THEN spec, THEN spec, THEN spec, THEN spec, of "[?p]" ?e "[]" 165]
  note absent = nutrients_by_exact_name [OF h2, of chicken, THEN conjunct2, THEN conjunct1, THEN spec,
      of "[?p] @ ?e # []"]
  note nolist = nutrients_by_exact_name [OF h1, of bananaBread, THEN conjunct1]
  have r1: "calories (extractPer100g chicken) = Num 165"
    by (rule found [THEN mp]) (intro conjI c p pe ve)
  have r2: "fat (extractPer100g chicken) = Num 0"
    by (rule absent [THEN mp]) (intro conjI c q)
  have r3: "calories (extractPer100g bananaBread) = Num 0"
    by (rule nolist [THEN mp]) (rule b)
  show ?thesis
    by (intro conjI h1 h2 c b r1 r2 r3)
qed

section \<open>Saving to the history\<close>

lemma take_twenty:
  "length (take 20 (entry # history)) \<le> 20 \<and> hd (take 20 (entry # history)) = entry
   \<and> (length history < 20 \<longrightarrow> take 20 (entry # history) = entry # history)
   \<and> (length history = 20 \<longrightarrow> take 20 (entry # history) = entry # butlast history)"
proof -
  have "take 20 (entry # history) = entry # take 19 history"
    by (simp add: take_Cons')
  moreover have "take 19 history = butlast history" if "length history = 20"
    using that by (simp add: butlast_conv_take)
  ultimately show ?thesis by simp
qed

text \<open>The search page keeps its history in the same way.\<close>

lemma search_history_capped:
  assumes "currentHistory = Some text" and "text \<noteq> []" and "parse text = ParsedArray history"
  shows "saveToHistory parse stringify now name currentHistory =
           Inr (Some (stringify (take 20 (\<lparr> shFoodName = name, shTimestamp = now \<rparr> # history))))"
  using assms by (simp add: saveToHistory_def)

text \<open>
  C8: saving a calculation puts the new entry in front of the stored collection and keeps
  the first 20 entries of the result. So the stored collection never has more than 20
  entries, the new entry is its first, and saving to a collection of 20 entries drops
  its last, the oldest, entry.
\<close>

theorem history_capped:
  assumes "existingHistory = Some text" and "text \<noteq> []" and "parse text = ParsedArray history"
  shows "saveCalculationToHistory parse stringify True now results totals existingHistory =
           Inr (Some (stringify (take 20 (historyEntry now results totals # history))))
         \<and> length (take 20 (historyEntry now results totals # history)) \<le> 20
         \<and> hd (take 20 (historyEntry now results totals # history)) = historyEntry now results totals
         \<and> (length history = 20 \<longrightarrow>
              take 20 (historyEntry now results totals # history) =
                historyEntry now results totals # butlast history)"
proof -
  have "saveCalculationToHistory parse stringify True now results totals existingHistory =
          Inr (Some (stringify (take 20 (historyEntry now results totals # history))))"
    using assms by (simp add: saveCalculationToHistory_def)
  then show ?thesis
    using take_twenty [of "historyEntry now results totals" history] by blast
qed

theorem history_capped_witness:
  "Some ''stored'' = Some ''stored'' \<and> ''stored'' \<noteq> [] \<and> parseTwenty ''stored'' = ParsedArray twentyEntries
   \<and> length twentyEntries = 20
   \<and> saveCalculationToHistory parseTwenty exampleStringify True ''new'' [] zeroNutrients (Some ''stored'') =
       Inr (Some (exampleStringify (historyEntry ''new'' [] zeroNutrients # butlast twentyEntries)))
   \<and> length (historyEntry ''new'' [] zeroNutrients # butlast twentyEntries) = 20
   \<and> last twentyEntries = oldEntry 1
   \<and> oldEntry 1 \<notin> set (historyEntry ''new'' [] zeroNutrients # butlast twentyEntries)"
proof -
  have h1: "Some ''stored'' = Some ''stored''"
    by simp
  have h2: "''stored'' \<noteq> []"
    by simp
  have h3: "parseTwenty ''stored'' = ParsedArray twentyEntries"
    by (simp add: parseTwenty_def)
  have l: "length twentyEntries = 20"
    by (simp add: twentyEntries_def)
  note t = history_capped [of "Some ''stored''" "''stored''" parseTwenty twentyEntries exampleStringify
      "''new''" "[]" zeroNutrients, OF h1 h2 h3]
  have c: "take 20 (historyEntry ''new'' [] zeroNutrients # twentyEntries) =
             historyEntry ''new'' [] zeroNutrients # butlast twentyEntries"
    by (rule t [THEN conjunct2, THEN conjunct2, THEN conjunct2, THEN mp]) (rule l)
  have s: "saveCalculationToHistory parseTwenty exampleStringify True ''new'' [] zeroNutrients (Some ''stored'') =
       Inr (Some (exampleStringify (historyEntry ''new'' [] zeroNutrients # butlast twentyEntries)))"
    using t [THEN conjunct1] by (simp only: c)
  have n: "length (historyEntry ''new'' [] zeroNutrients # butlast twentyEntries) = 20"
    by (simp add: l)
  have o: "last twentyEntries = oldEntry 1"
    by code_simp
  have m: "oldEntry 1 \<notin> set (historyEntry ''new'' [] zeroNutrients # butlast twentyEntries)"
    by code_simp
  show ?thesis
    by (intro conjI h1 h2 h3 l s n o m)
qed

text \<open>
  C10: when the stored history cannot be parsed as JSON, saving a calculation does not
  fail: the old content is dropped, and the collection stored is the new entry alone.
\<close>

theorem corrupt_history_replaced:
  assumes "existingHistory = Some text" and "parse text = ParseThrows"
  shows "saveCalculationToHistory parse stringify True now results totals existingHistory =
           Inr (Some (stringify [historyEntry now results totals]))"
  using assms by (simp add: saveCalculationToHistory_def)

theorem corrupt_history_replaced_witness:
  "Some ''not json'' = Some ''not json'' \<and> exampleParse ''not json'' = ParseThrows
   \<and> saveCalculationToHistory exampleParse exampleStringify True ''2026/01/01 12:00:00'' [] zeroNutrients
        (Some ''not json'') =
       Inr (Some ''<2026/01/01 12:00:00>'')"
proof -
  have h1: "Some ''not json'' = Some ''not json''"
    by simp
  have h2: "exampleParse ''not json'' = ParseThrows"
    by code_simp
  have e: "exampleStringify [historyEntry ''2026/01/01 12:00:00'' [] zeroNutrients] = ''<2026/01/01 12:00:00>''"
    by code_simp
  show ?thesis
    using h1 h2
      corrupt_history_replaced [of "Some ''not json''" "''not json''" exampleParse exampleStringify
        "''2026/01/01 12:00:00''" "[]" zeroNutrients, OF h1 h2]
    by (simp only: e)
qed

text \<open>
  With a corrupt history in the slot the whole handler completes as well: no alert, and
  the slot holds the one new entry.
\<close>

lemma handle_with_corrupt_history:
  assumes "isLoggedIn s" and "validItems (mealItems s) \<noteq> []"
    and "list_all (fetchCompletes fetch) (validItems (mealItems s))"
    and "calculatorHistory s = Some text" and "parse text = ParseThrows"
  shows "\<exists>results totals.
           handleCalculateNutrients fetch parse stringify now s =
             (None, s\<lparr>calculatedResults := results, totalNutrients := Some totals,
                      calculatorHistory := Some (stringify [historyEntry now results totals])\<rparr>)"
  using assms(1,2,4,5) processItems_Inr [OF assms(3), of "([], zeroNutrients)"]
  by (simp add: handleCalculateNutrients_def Let_def saveCalculationToHistory_def) blast

text \<open>A stored value that parses to something other than an array does make the handler fail.\<close>

lemma handle_with_non_array_history:
  assumes "isLoggedIn s" and "validItems (mealItems s) \<noteq> []"
    and "list_all (fetchCompletes fetch) (validItems (mealItems s))"
    and "calculatorHistory s = Some text" and "text \<noteq> []" and "parse text = ParsedOther"
  shows "fst (handleCalculateNutrients fetch parse stringify now s) = Some CalculationError"
  using assms(1,2,4,5,6) processItems_Inr [OF assms(3), of "([], zeroNutrients)"]
  by (simp add: handleCalculateNutrients_def Let_def saveCalculationToHistory_def)

end
